theory Spec2Isabelle
  imports Complex_Main
begin

section \<open>News corpus, text preparation and flat vector index\<close>

text \<open>
  A shallow embedding of \<^verbatim>\<open>main.py\<close> (ingestion merge) and of the class
  \<^verbatim>\<open>NewsVectorDB\<close> in \<^verbatim>\<open>vector_database_creation.py\<close>.

  Conventions of the embedding.
  \<^item> An article is a Python dict with string keys and string values (what the fetchers
    and \<^verbatim>\<open>save_news_to_json\<close> produce): a map \<open>string \<rightharpoonup> string\<close>.
  \<^item> A metadata entry is a dict with mixed values: a map \<open>string \<rightharpoonup> pyval\<close>.
  \<^item> A raised exception is \<open>Inl e\<close>; a normal return is \<open>Inr v\<close>. A function of the
    source in which nothing raises on the inputs of the model, or which catches every
    exception, returns its value directly.
  \<^item> Vector components and distances are real numbers: the exact-arithmetic reading of
    the float32 values held by numpy and FAISS.
  \<^item> Console output (\<^verbatim>\<open>print\<close>) is not part of the model.
\<close>

subsection \<open>Python values and helpers\<close>

datatype py_error =
    KeyError | IndexError | AssertionError | EOFError
  | OSError | UnicodeDecodeError | TypeError

datatype pyval = PInt int | PStr string | PFloat real

type_synonym article = "string \<rightharpoonup> string"
type_synonym pydict = "string \<rightharpoonup> pyval"
type_synonym vector = "real list"
type_synonym path = string
type_synonym bytes = string

text \<open>Truth value of \<^verbatim>\<open>article.get(key)\<close>: \<^verbatim>\<open>None\<close> and the empty string are false.\<close>

definition truthy :: "string option \<Rightarrow> bool" where
  "truthy v = (case v of None \<Rightarrow> False | Some s \<Rightarrow> s \<noteq> [])"

text \<open>\<^verbatim>\<open>article.get(key, default)\<close>.\<close>

definition get_default :: "article \<Rightarrow> string \<Rightarrow> string \<Rightarrow> string" where
  "get_default a key dflt = (case a key of None \<Rightarrow> dflt | Some s \<Rightarrow> s)"

text \<open>\<^verbatim>\<open>sep.join(parts)\<close>.\<close>

fun py_join :: "string \<Rightarrow> string list \<Rightarrow> string" where
  "py_join sep [] = []"
| "py_join sep [x] = x"
| "py_join sep (x # y # ys) = x @ sep @ py_join sep (y # ys)"

text \<open>
  List subscript \<^verbatim>\<open>xs[i]\<close>. Python reads \<open>i\<close> from the front when it is not
  negative and from the back when it is, and raises when neither lands inside the list.
\<close>

definition py_index :: "'a list \<Rightarrow> int \<Rightarrow> py_error + 'a" where
  "py_index xs i =
     (if 0 \<le> i \<and> i < int (length xs) then Inr (xs ! nat i)
      else if i < 0 \<and> - int (length xs) \<le> i then Inr (xs ! nat (int (length xs) + i))
      else Inl IndexError)"

text \<open>
  \<^verbatim>\<open>str.isspace\<close> for one character, \<^verbatim>\<open>str.strip()\<close> and \<^verbatim>\<open>str.lower()\<close>, on
  code points below 256 (a \<open>char\<close> is one code point here).
\<close>

definition py_isspace :: "char \<Rightarrow> bool" where
  "py_isspace c =
     (let n = of_char c :: nat
      in (9 \<le> n \<and> n \<le> 13) \<or> (28 \<le> n \<and> n \<le> 32) \<or> n = 133 \<or> n = 160)"

definition py_strip :: "string \<Rightarrow> string" where
  "py_strip s = rev (dropWhile py_isspace (rev (dropWhile py_isspace s)))"

definition py_lower_char :: "char \<Rightarrow> char" where
  "py_lower_char c =
     (let n = of_char c :: nat
      in if (65 \<le> n \<and> n \<le> 90) \<or> (192 \<le> n \<and> n \<le> 222 \<and> n \<noteq> 215)
         then char_of (n + 32) else c)"

definition py_lower :: "string \<Rightarrow> string" where
  "py_lower s = map py_lower_char s"

subsection \<open>Ingestion merge (\<^verbatim>\<open>main.py\<close>)\<close>

text \<open>
  \<^verbatim>\<open>{news['headline'] for news in existing_news}\<close>: the subscript raises
  \<^verbatim>\<open>KeyError\<close> on an article without a headline.
\<close>

fun existing_headlines :: "article list \<Rightarrow> py_error + string set" where
  "existing_headlines [] = Inr {}"
| "existing_headlines (news # rest) =
     (case news ''headline'' of
        None \<Rightarrow> Inl KeyError
      | Some h \<Rightarrow> (case existing_headlines rest of
                    Inl e \<Rightarrow> Inl e
                  | Inr hs \<Rightarrow> Inr (insert h hs)))"

text \<open>
  The \<^verbatim>\<open>for news_item in new_news\<close> loop, with the set of existing headlines and
  the list \<^verbatim>\<open>unique_new_news\<close> built so far. The set is the same in every iteration.
\<close>

fun merge_loop :: "string set \<Rightarrow> article list \<Rightarrow> article list \<Rightarrow> py_error + article list" where
  "merge_loop hs [] unique_new_news = Inr unique_new_news"
| "merge_loop hs (news_item # rest) unique_new_news =
     (case news_item ''headline'' of
        None \<Rightarrow> Inl KeyError
      | Some h \<Rightarrow>
          if h \<notin> hs then merge_loop hs rest (unique_new_news @ [news_item])
          else merge_loop hs rest unique_new_news)"

definition merge_and_deduplicate_news ::
    "article list \<Rightarrow> article list \<Rightarrow> py_error + article list" where
  "merge_and_deduplicate_news existing_news new_news =
     (case existing_headlines existing_news of
        Inl e \<Rightarrow> Inl e
      | Inr hs \<Rightarrow> merge_loop hs new_news [])"

subsection \<open>Text preparation\<close>

definition prepare_text_for_embedding :: "article \<Rightarrow> string" where
  "prepare_text_for_embedding article =
     (let text_parts0 = [];
          text_parts1 =
            (if truthy (article ''headline'')
             then text_parts0 @ [''Headline: '' @ get_default article ''headline'' []]
             else text_parts0);
          text_parts2 =
            (if truthy (article ''full_news'')
             then text_parts1 @ [''Content: '' @ take 1000 (get_default article ''full_news'' [])]
             else text_parts1);
          text_parts3 =
            (if truthy (article ''source'')
             then text_parts2 @ [''Source: '' @ get_default article ''source'' []]
             else text_parts2)
      in py_join '' '' text_parts3)"

subsection \<open>The FAISS flat index\<close>

text \<open>
  FAISS is a library, not code of the repository. \<^verbatim>\<open>IndexFlatL2\<close> is modelled by the
  behaviour its callers here rely on: an index of dimension \<open>d\<close> stores rows in insertion
  order; \<^verbatim>\<open>add\<close> and \<^verbatim>\<open>search\<close> assert that the width of the array they are given
  is \<open>d\<close>, and \<^verbatim>\<open>search\<close> that \<open>k\<close> is positive; \<^verbatim>\<open>search\<close> returns, for the one
  query row, exactly \<open>k\<close> pairs of squared L2 distance and row label, nearest first, and
  where the index holds fewer than \<open>k\<close> rows the remaining pairs have label \<open>-1\<close> and the
  largest float32 as distance. Rows at equal distance are listed by ascending label.
\<close>

record faiss_index =
  index_d :: nat
  index_rows :: "vector list"

definition IndexFlatL2 :: "nat \<Rightarrow> faiss_index" where
  "IndexFlatL2 dimension = \<lparr>index_d = dimension, index_rows = []\<rparr>"

definition ntotal :: "faiss_index \<Rightarrow> nat" where
  "ntotal index = length (index_rows index)"

definition faiss_add :: "faiss_index \<Rightarrow> vector list \<Rightarrow> py_error + faiss_index" where
  "faiss_add index x =
     (if list_all (\<lambda>v. length v = index_d index) x
      then Inr (index\<lparr>index_rows := index_rows index @ x\<rparr>)
      else Inl AssertionError)"

definition l2sqr :: "vector \<Rightarrow> vector \<Rightarrow> real" where
  "l2sqr x y = sum_list (map (\<lambda>(a, b). (a - b) * (a - b)) (zip x y))"

definition FLT_MAX :: real where
  "FLT_MAX = 340282346638528859811704183484516925440"

definition faiss_search :: "faiss_index \<Rightarrow> vector \<Rightarrow> int \<Rightarrow> py_error + (real \<times> int) list" where
  "faiss_search index x k =
     (if length x = index_d index \<and> 0 < k then
        let scored = zip (map (l2sqr x) (index_rows index))
                         (map int [0..<length (index_rows index)]);
            nearest = take (nat k) (sort_key fst scored)
        in Inr (nearest @ replicate (nat k - length nearest) (FLT_MAX, -1))
      else Inl AssertionError)"

subsection \<open>The object, the files and the heap\<close>

text \<open>
  The fields of a \<^verbatim>\<open>NewsVectorDB\<close> object. \<open>model\<close> is the Embedding Provider:
  \<^verbatim>\<open>self.model.encode(texts)\<close> is \<open>map (model self) texts\<close>, one vector per text in
  order; a provider failure is not modelled.
\<close>

record news_vector_db =
  json_file :: path
  faiss_index_file :: path
  metadata_file :: path
  model :: "string \<Rightarrow> vector"
  embeddings :: "vector list option"
  metadata :: "pydict list"

text \<open>
  What the \<^verbatim>\<open>try\<close> block of \<^verbatim>\<open>load_news_data\<close> meets at the path of the
  document store, one constructor for each way it can end:
  \<^item> \<open>Absent\<close>: there is no file, \<^verbatim>\<open>open\<close> raises \<^verbatim>\<open>FileNotFoundError\<close>;
  \<^item> \<open>Unopenable\<close>: \<^verbatim>\<open>open\<close> raises another \<^verbatim>\<open>OSError\<close> (no permission, a
    directory);
  \<^item> \<open>NotUtf8\<close>: the bytes are not UTF-8, reading raises \<^verbatim>\<open>UnicodeDecodeError\<close>;
  \<^item> \<open>Malformed\<close>: the text is not JSON, \<^verbatim>\<open>json.load\<close> raises
    \<^verbatim>\<open>JSONDecodeError\<close>;
  \<^item> \<open>Unsized\<close>: the text is JSON \<^verbatim>\<open>null\<close>, a number or a boolean, and
    \<^verbatim>\<open>len(news_data)\<close> in the \<^verbatim>\<open>print\<close> raises \<^verbatim>\<open>TypeError\<close>;
  \<^item> \<open>Articles\<close>: the text is a JSON list of article objects.

  A JSON string or object, and a list of anything but article objects, are not
  covered: the store is written by \<^verbatim>\<open>save_news_to_json\<close> as a list of articles.
\<close>

datatype corpus_file =
    Absent | Unopenable | NotUtf8 | Malformed | Unsized | Articles "article list"

record config =
  created_at :: string
  num_articles :: nat
  embedding_dim :: nat
  index_type :: string
  model_name :: string

text \<open>
  The libraries that write and read the artifact files. FAISS, \<^verbatim>\<open>pickle\<close> and
  \<^verbatim>\<open>json\<close> are not code of the repository, so they are parameters: what each writer
  produces is some sequence of bytes, and a reader either returns a value or raises
  (\<open>None\<close>). Nothing is assumed about them here; a theorem that needs a reader to
  return what a writer was given says so.
\<close>

record libraries =
  write_index :: "faiss_index \<Rightarrow> bytes"
  read_index :: "bytes \<Rightarrow> faiss_index option"
  pickle_dump :: "pydict list \<Rightarrow> bytes"
  pickle_load :: "bytes \<Rightarrow> pydict list option"
  json_dump :: "config \<Rightarrow> bytes"

text \<open>
  The world outside the object:
  \<^item> \<open>docs\<close>: the document store as the \<^verbatim>\<open>try\<close> block of \<^verbatim>\<open>load_news_data\<close>
    meets it (taken to be a file other than the three artifacts);
  \<^item> \<open>resolve\<close>: the file a path leads to, by its canonical name (two spellings such as
    \<^verbatim>\<open>x\<close> and \<^verbatim>\<open>./x\<close> lead to one file);
  \<^item> \<open>files\<close>: the bytes of each artifact file that exists, by canonical name;
  \<^item> \<open>libs\<close>: the installed libraries;
  \<^item> \<open>heap\<close>: the dict objects (a reference is a position in the list);
  \<^item> \<open>sent\<close>: the texts sent to the Embedding Provider so far;
  \<^item> \<open>now\<close>: the reading of the clock.
\<close>

record world =
  docs :: "path \<Rightarrow> corpus_file"
  resolve :: "path \<Rightarrow> path"
  files :: "path \<rightharpoonup> bytes"
  libs :: libraries
  heap :: "pydict list"
  sent :: "string list"
  now :: string

subsection \<open>Building\<close>

text \<open>
  Only \<^verbatim>\<open>FileNotFoundError\<close> and \<^verbatim>\<open>json.JSONDecodeError\<close> have an
  \<^verbatim>\<open>except\<close> clause; every other exception leaves the function.
\<close>

definition load_news_data :: "news_vector_db \<Rightarrow> world \<Rightarrow> py_error + article list" where
  "load_news_data self w =
     (case docs w (json_file self) of
        Articles news_data \<Rightarrow> Inr news_data
      | Absent \<Rightarrow> Inr []
      | Malformed \<Rightarrow> Inr []
      | Unopenable \<Rightarrow> Inl OSError
      | NotUtf8 \<Rightarrow> Inl UnicodeDecodeError
      | Unsized \<Rightarrow> Inl TypeError)"

text \<open>The dict literal bound to \<^verbatim>\<open>metadata\<close> in the loop of \<^verbatim>\<open>create_embeddings\<close>.\<close>

definition metadata_entry :: "nat \<Rightarrow> article \<Rightarrow> pydict" where
  "metadata_entry idx article =
     [''id'' \<mapsto> PInt (int idx),
      ''headline'' \<mapsto> PStr (get_default article ''headline'' []),
      ''source_url'' \<mapsto> PStr (get_default article ''source_url'' []),
      ''published_time'' \<mapsto> PStr (get_default article ''published_time'' []),
      ''source'' \<mapsto> PStr (get_default article ''source'' ''Unknown''),
      ''full_news_preview'' \<mapsto>
         PStr (if truthy (article ''full_news'')
               then take 200 (get_default article ''full_news'' []) @ ''...''
               else [])]"

text \<open>
  \<^verbatim>\<open>for idx, article in enumerate(news_data)\<close>, with the lists \<^verbatim>\<open>texts\<close> and
  \<^verbatim>\<open>self.metadata\<close> built so far.
\<close>

fun create_loop ::
    "nat \<Rightarrow> article list \<Rightarrow> string list \<Rightarrow> pydict list \<Rightarrow> string list \<times> pydict list" where
  "create_loop idx [] texts md = (texts, md)"
| "create_loop idx (article # rest) texts md =
     create_loop (Suc idx) rest
       (texts @ [prepare_text_for_embedding article])
       (md @ [metadata_entry idx article])"

definition create_embeddings ::
    "news_vector_db \<Rightarrow> article list \<Rightarrow> world \<Rightarrow> vector list option \<times> news_vector_db \<times> world" where
  "create_embeddings self news_data w =
     (if news_data = [] then (None, self, w)
      else
        let (texts, md) = create_loop 0 news_data [] [];
            self1 = self\<lparr>metadata := md\<rparr>;
            encoded = map (model self1) texts;
            w1 = w\<lparr>sent := sent w @ texts\<rparr>;
            self2 = self1\<lparr>embeddings := Some encoded\<rparr>
        in (Some encoded, self2, w1))"

definition build_faiss_index :: "vector list option \<Rightarrow> py_error + faiss_index option" where
  "build_faiss_index embs =
     (case embs of
        None \<Rightarrow> Inr None
      | Some e \<Rightarrow>
          if length e = 0 then Inr None
          else
            let dimension = length (hd e);
                index = IndexFlatL2 dimension
            in (case faiss_add index e of
                  Inl err \<Rightarrow> Inl err
                | Inr index1 \<Rightarrow> Inr (Some index1)))"

subsection \<open>Persistence\<close>

text \<open>A failing write is not modelled: each of the three writes succeeds.\<close>

definition save_vector_db :: "news_vector_db \<Rightarrow> faiss_index option \<Rightarrow> world \<Rightarrow> world" where
  "save_vector_db self index w =
     (case index of
        None \<Rightarrow> w
      | Some ix \<Rightarrow>
          let w1 = w\<lparr>files := (files w)(resolve w (faiss_index_file self) \<mapsto>
                                  write_index (libs w) ix)\<rparr>;
              w2 = w1\<lparr>files := (files w1)(resolve w1 (metadata_file self) \<mapsto>
                                  pickle_dump (libs w1) (metadata self))\<rparr>;
              cfg = \<lparr>created_at = now w2,
                     num_articles = length (metadata self),
                     embedding_dim = index_d ix,
                     index_type = ''IndexFlatL2'',
                     model_name = ''all-MiniLM-L6-v2''\<rparr>
          in w2\<lparr>files := (files w2)(resolve w2 ''vector_db_config.json'' \<mapsto>
                              json_dump (libs w2) cfg)\<rparr>)"

text \<open>
  The result \<open>None\<close> is the pair \<^verbatim>\<open>(None, None)\<close> of the source. It is returned
  when \<^verbatim>\<open>os.path.exists\<close> fails for one of the two files, and also when
  \<^verbatim>\<open>faiss.read_index\<close> or \<^verbatim>\<open>pickle.load\<close> raises inside the \<^verbatim>\<open>try\<close>, which
  \<^verbatim>\<open>except Exception\<close> catches. The index is read first.
\<close>

definition load_vector_db :: "news_vector_db \<Rightarrow> world \<Rightarrow> (faiss_index \<times> pydict list) option" where
  "load_vector_db self w =
     (if files w (resolve w (faiss_index_file self)) = None \<or>
         files w (resolve w (metadata_file self)) = None
      then None
      else
        (case files w (resolve w (faiss_index_file self)) of
           None \<Rightarrow> None
         | Some index_bytes \<Rightarrow>
             (case read_index (libs w) index_bytes of
                None \<Rightarrow> None
              | Some index \<Rightarrow>
                  (case files w (resolve w (metadata_file self)) of
                     None \<Rightarrow> None
                   | Some metadata_bytes \<Rightarrow>
                       (case pickle_load (libs w) metadata_bytes of
                          None \<Rightarrow> None
                        | Some md \<Rightarrow> Some (index, md))))))"

definition build_from_scratch ::
    "news_vector_db \<Rightarrow> world \<Rightarrow> (py_error + bool) \<times> news_vector_db \<times> world" where
  "build_from_scratch self w =
     (case load_news_data self w of
        Inl err \<Rightarrow> (Inl err, self, w)
      | Inr news_data \<Rightarrow>
          if news_data = [] then (Inr False, self, w)
          else
            let (embs, self1, w1) = create_embeddings self news_data w
            in if embs = None then (Inr False, self1, w1)
               else
                 (case build_faiss_index embs of
                    Inl err \<Rightarrow> (Inl err, self1, w1)
                  | Inr None \<Rightarrow> (Inr False, self1, w1)
                  | Inr (Some index) \<Rightarrow> (Inr True, self1, save_vector_db self1 (Some index) w1)))"

subsection \<open>Querying\<close>

text \<open>
  \<^verbatim>\<open>pickle.load\<close> creates new dict objects: the loaded entries are placed at the end
  of the heap and the list holds their references.
\<close>

definition alloc_all :: "pydict list \<Rightarrow> pydict list \<Rightarrow> nat list \<times> pydict list" where
  "alloc_all vals h = ([length h ..< length h + length vals], h @ vals)"

text \<open>
  The loop over \<^verbatim>\<open>enumerate(zip(distances[0], indices[0]))\<close>. \<^verbatim>\<open>metadata[idx].copy()\<close>
  allocates a new dict with the entry's items; the two assignments write into the new
  dict only.
\<close>

fun search_loop ::
    "nat list \<Rightarrow> (nat \<times> real \<times> int) list \<Rightarrow> nat list \<Rightarrow> pydict list
       \<Rightarrow> (py_error + nat list) \<times> pydict list" where
  "search_loop md [] results h = (Inr results, h)"
| "search_loop md ((i, distance, idx) # rest) results h =
     (if idx < int (length md) then
        (case py_index md idx of
           Inl err \<Rightarrow> (Inl err, h)
         | Inr entry \<Rightarrow>
             let article_info = length h;
                 h1 = h @ [h ! entry];
                 h2 = h1[article_info := (h1 ! article_info)(''similarity_score'' \<mapsto> PFloat distance)];
                 h3 = h2[article_info := (h2 ! article_info)(''rank'' \<mapsto> PInt (int i + 1))]
             in search_loop md rest (results @ [article_info]) h3)
      else search_loop md rest results h)"

definition search_similar ::
    "news_vector_db \<Rightarrow> string \<Rightarrow> int \<Rightarrow> faiss_index option \<Rightarrow> nat list option \<Rightarrow> world
       \<Rightarrow> (py_error + nat list) \<times> world" where
  "search_similar self query k index md w =
     (let loaded =
            (case (index, md) of
               (Some ix, Some m) \<Rightarrow> Some (ix, m, w)
             | _ \<Rightarrow>
                 (case load_vector_db self w of
                    None \<Rightarrow> None
                  | Some (ix, vals) \<Rightarrow>
                      let (m, h) = alloc_all vals (heap w)
                      in Some (ix, m, w\<lparr>heap := h\<rparr>)))
      in case loaded of
           None \<Rightarrow> (Inr [], w)
         | Some (ix, m, w1) \<Rightarrow>
             let query_embedding = model self query;
                 w2 = w1\<lparr>sent := sent w1 @ [query]\<rparr>
             in (case faiss_search ix query_embedding k of
                   Inl err \<Rightarrow> (Inl err, w2)
                 | Inr hits \<Rightarrow>
                     let (r, h) = search_loop m (zip [0..<length hits] hits) [] (heap w2)
                     in (r, w2\<lparr>heap := h\<rparr>)))"

text \<open>
  The \<^verbatim>\<open>while True\<close> loop of \<^verbatim>\<open>main\<close>, over the lines that \<^verbatim>\<open>input\<close> returns;
  when they run out, \<^verbatim>\<open>input\<close> raises \<^verbatim>\<open>EOFError\<close>. \<open>index\<close> and \<open>md\<close> are
  what \<^verbatim>\<open>main\<close> loaded before the loop.
\<close>

fun main_search_loop ::
    "news_vector_db \<Rightarrow> faiss_index option \<Rightarrow> nat list option \<Rightarrow> string list \<Rightarrow> world
       \<Rightarrow> (py_error + unit) \<times> world" where
  "main_search_loop self index md [] w = (Inl EOFError, w)"
| "main_search_loop self index md (line # rest) w =
     (let query = py_strip line
      in if py_lower query = ''exit'' then (Inr (), w)
         else if query = [] then main_search_loop self index md rest w
         else
           (case search_similar self query 5 index md w of
              (Inl err, w1) \<Rightarrow> (Inl err, w1)
            | (Inr results, w1) \<Rightarrow> main_search_loop self index md rest w1))"

subsection \<open>Example objects\<close>

text \<open>
  \<^verbatim>\<open>NewsVectorDB()\<close> with the default file names of \<^verbatim>\<open>__init__\<close>, which are the
  ones \<^verbatim>\<open>main\<close> passes, for a given Embedding Provider.
\<close>

definition NewsVectorDB :: "(string \<Rightarrow> vector) \<Rightarrow> news_vector_db" where
  "NewsVectorDB provider =
     \<lparr>json_file = ''news_data.json'',
      faiss_index_file = ''news_index.faiss'',
      metadata_file = ''news_metadata.pkl'',
      model = provider,
      embeddings = None,
      metadata = []\<rparr>"

text \<open>A provider with two-dimensional answers, two articles, and what is built from them.\<close>

definition example_model :: "string \<Rightarrow> vector" where
  "example_model t = (if t = ''Headline: Flood'' then [1, 0] else [0, 0])"

definition example_news :: "article list" where
  "example_news =
     [[''headline'' \<mapsto> ''Flood''],
      [''headline'' \<mapsto> ''Match'', ''full_news'' \<mapsto> ''Two goals.'', ''source'' \<mapsto> ''CNN'']]"

definition example_index :: faiss_index where
  "example_index = \<lparr>index_d = 2, index_rows = [[1, 0], [0, 0]]\<rparr>"

definition example_metadata :: "pydict list" where
  "example_metadata = [[''id'' \<mapsto> PInt 0, ''headline'' \<mapsto> PStr ''Flood''],
                       [''id'' \<mapsto> PInt 1, ''headline'' \<mapsto> PStr ''Match'']]"

text \<open>
  Libraries for the examples: the bytes \<open>IxF2 two rows\<close> are read as the example
  index, \<open>pickle two\<close> as the two example entries and \<open>pickle one\<close> as the first of
  them alone; anything else makes the reader raise.
\<close>

definition example_libs :: libraries where
  "example_libs =
     \<lparr>write_index = (\<lambda>ix. if ix = example_index then ''IxF2 two rows'' else ''IxF2 other''),
      read_index = (\<lambda>b. if b = ''IxF2 two rows'' then Some example_index else None),
      pickle_dump = (\<lambda>md. if md = example_metadata then ''pickle two'' else ''pickle other''),
      pickle_load = (\<lambda>b. if b = ''pickle two'' then Some example_metadata
                          else if b = ''pickle one'' then Some [hd example_metadata]
                          else None),
      json_dump = (\<lambda>cfg. ''{}'')\<rparr>"

text \<open>A path written with a leading \<^verbatim>\<open>./\<close> leads to the same file as without it.\<close>

definition example_resolve :: "path \<Rightarrow> path" where
  "example_resolve p = (if take 2 p = ''./'' then drop 2 p else p)"

text \<open>
  A world whose document store holds \<open>docs0\<close> and that has no artifact yet, and one in
  which the two metadata entries are loaded at references 0 and 1.
\<close>

definition example_world :: "corpus_file \<Rightarrow> world" where
  "example_world docs0 =
     \<lparr>docs = (\<lambda>p. if p = ''news_data.json'' then docs0 else Absent),
      resolve = example_resolve,
      files = Map.empty, libs = example_libs,
      heap = [], sent = [], now = ''2025-01-01T00:00:00''\<rparr>"

definition loaded_world :: world where
  "loaded_world = (example_world Absent)\<lparr>heap := example_metadata\<rparr>"

subsection \<open>The text of claim C7 as the specification words it\<close>

text \<open>
  Not taken from the source. The specification describes the prepared text as the
  headline, the first 1000 characters of the body and the source, in that order,
  joined by spaces, a missing field being the empty string. This definition exists to
  be compared with \<open>prepare_text_for_embedding\<close>.
\<close>

definition prepare_text_as_specified :: "article \<Rightarrow> string" where
  "prepare_text_as_specified article =
     py_join '' ''
       [get_default article ''headline'' [],
        take 1000 (get_default article ''full_news'' []),
        get_default article ''source'' []]"

section \<open>Properties\<close>

subsection \<open>Ingestion merge\<close>

lemma existing_headlines_ok:
  "\<forall>a \<in> set xs. a ''headline'' \<noteq> None \<Longrightarrow>
   existing_headlines xs = Inr {h. \<exists>a \<in> set xs. a ''headline'' = Some h}"
  by (induction xs) (auto split: option.splits)

lemma merge_loop_filter:
  "\<forall>a \<in> set new. a ''headline'' \<noteq> None \<Longrightarrow>
   merge_loop hs new acc = Inr (acc @ filter (\<lambda>n. \<forall>h. n ''headline'' = Some h \<longrightarrow> h \<notin> hs) new)"
  by (induction new arbitrary: acc) (auto split: option.splits)

text \<open>
  Claim C2, as stated, fails on the code. Two runs of \<open>merge_and_deduplicate_news\<close>:
  with an empty corpus and a batch that repeats the headline \<open>Rain\<close>, both articles are
  accepted (the set of headlines is built from the existing corpus once and is not
  updated while the batch is read); and a headline that differs from an existing one
  only in letter case and in the number of spaces is accepted (headlines are compared
  as they are, nothing is case-folded or collapsed).
\<close>

theorem merge_dedup_counterexample:
  "merge_and_deduplicate_news [] [[''headline'' \<mapsto> ''Rain''], [''headline'' \<mapsto> ''Rain'']]
     = Inr [[''headline'' \<mapsto> ''Rain''], [''headline'' \<mapsto> ''Rain'']]
   \<and> merge_and_deduplicate_news [[''headline'' \<mapsto> ''Rain Today'']]
         [[''headline'' \<mapsto> ''rain  today'']]
     = Inr [[''headline'' \<mapsto> ''rain  today'']]"
  by (simp add: merge_and_deduplicate_news_def)

text \<open>
  Claim C2, amended. When every article of the existing corpus and of the batch has a
  headline, \<open>merge_and_deduplicate_news\<close> returns, without raising, the articles of the
  batch whose headline, compared as the exact string, is the headline of no article of
  the existing corpus, in the order of the batch. So the result is a subsequence of the
  batch and holds no headline of the existing corpus; articles of the batch are not
  compared with each other.
\<close>

theorem merge_filters_against_existing:
  assumes "\<forall>a \<in> set existing_news \<union> set new_news. a ''headline'' \<noteq> None"
  shows "merge_and_deduplicate_news existing_news new_news =
           Inr (filter (\<lambda>n. n ''headline'' \<notin> (\<lambda>e. e ''headline'') ` set existing_news) new_news)"
proof -
  have ex: "existing_headlines existing_news =
              Inr {h. \<exists>a \<in> set existing_news. a ''headline'' = Some h}"
    using assms by (intro existing_headlines_ok) simp
  have nw: "\<forall>a \<in> set new_news. a ''headline'' \<noteq> None"
    using assms by simp
  have pw: "(\<forall>h. n ''headline'' = Some h \<longrightarrow>
                 h \<notin> {h. \<exists>a \<in> set existing_news. a ''headline'' = Some h}) =
            (n ''headline'' \<notin> (\<lambda>e. e ''headline'') ` set existing_news)"
    if "n \<in> set new_news" for n
  proof -
    from nw that obtain y where y: "n ''headline'' = Some y" by auto
    show ?thesis by (auto simp: y image_iff)
  qed
  have "filter (\<lambda>n. \<forall>h. n ''headline'' = Some h \<longrightarrow>
                 h \<notin> {h. \<exists>a \<in> set existing_news. a ''headline'' = Some h}) new_news =
        filter (\<lambda>n. n ''headline'' \<notin> (\<lambda>e. e ''headline'') ` set existing_news) new_news"
    by (rule filter_cong [OF refl]) (rule pw)
  then show ?thesis
    unfolding merge_and_deduplicate_news_def
    by (simp add: ex merge_loop_filter [OF nw])
qed
theorem merge_filters_against_existing_witness:
  "merge_and_deduplicate_news [[''headline'' \<mapsto> ''A'']]
      [[''headline'' \<mapsto> ''B''], [''headline'' \<mapsto> ''A''], [''headline'' \<mapsto> ''C'']]
     = Inr [[''headline'' \<mapsto> ''B''], [''headline'' \<mapsto> ''C'']]"
  using merge_filters_against_existing
    [of "[[''headline'' \<mapsto> ''A'']]"
        "[[''headline'' \<mapsto> ''B''], [''headline'' \<mapsto> ''A''], [''headline'' \<mapsto> ''C'']]"]
  by simp

subsection \<open>Text preparation\<close>

text \<open>
  Claim C7, as stated, fails on the code. For an article with headline \<open>Flood\<close>,
  body \<open>Rain fell.\<close> and source \<open>CNN\<close> the code returns
  \<open>Headline: Flood Content: Rain fell. Source: CNN\<close>, not the three values joined
  by spaces: every part carries a label. For the same article without a source the
  code returns two parts and no trailing separator: an empty or missing field is left
  out altogether.
\<close>

theorem prepare_text_counterexample:
  "prepare_text_for_embedding
     [''headline'' \<mapsto> ''Flood'', ''full_news'' \<mapsto> ''Rain fell.'', ''source'' \<mapsto> ''CNN'']
     = ''Headline: Flood Content: Rain fell. Source: CNN'' \<and>
   prepare_text_as_specified
     [''headline'' \<mapsto> ''Flood'', ''full_news'' \<mapsto> ''Rain fell.'', ''source'' \<mapsto> ''CNN'']
     = ''Flood Rain fell. CNN'' \<and>
   prepare_text_for_embedding [''headline'' \<mapsto> ''Flood'', ''full_news'' \<mapsto> ''Rain fell.'']
     = ''Headline: Flood Content: Rain fell.'' \<and>
   prepare_text_as_specified [''headline'' \<mapsto> ''Flood'', ''full_news'' \<mapsto> ''Rain fell.'']
     = ''Flood Rain fell. ''"
  by (simp add: prepare_text_for_embedding_def prepare_text_as_specified_def
                truthy_def get_default_def)

text \<open>
  Claim C7, amended. For every article, \<open>prepare_text_for_embedding\<close> is the
  following function of the article alone: the parts \<open>Headline: \<close> followed by the
  headline, \<open>Content: \<close> followed by the first 1000 characters of the body (the whole
  body when it is shorter) and \<open>Source: \<close> followed by the source, in this order,
  each part present exactly when its field is there and not empty, joined by single
  spaces. In particular the body enters the result only through its first 1000
  characters: two articles with the same headline, the same source and bodies that
  agree on their first 1000 characters give the same text.
\<close>

theorem prepare_text_labelled_parts:
  "prepare_text_for_embedding article =
     py_join '' ''
       (filter (\<lambda>part. part \<noteq> [])
          [case article ''headline'' of
             None \<Rightarrow> [] | Some h \<Rightarrow> if h = [] then [] else ''Headline: '' @ h,
           case article ''full_news'' of
             None \<Rightarrow> [] | Some b \<Rightarrow> if b = [] then [] else ''Content: '' @ take 1000 b,
           case article ''source'' of
             None \<Rightarrow> [] | Some s \<Rightarrow> if s = [] then [] else ''Source: '' @ s])
   \<and> (other ''headline'' = article ''headline'' \<and> other ''source'' = article ''source'' \<and>
        map_option (take 1000) (other ''full_news'') = map_option (take 1000) (article ''full_news'')
        \<longrightarrow> prepare_text_for_embedding other = prepare_text_for_embedding article)"
proof (intro conjI impI)
  show "prepare_text_for_embedding article =
     py_join '' ''
       (filter (\<lambda>part. part \<noteq> [])
          [case article ''headline'' of
             None \<Rightarrow> [] | Some h \<Rightarrow> if h = [] then [] else ''Headline: '' @ h,
           case article ''full_news'' of
             None \<Rightarrow> [] | Some b \<Rightarrow> if b = [] then [] else ''Content: '' @ take 1000 b,
           case article ''source'' of
             None \<Rightarrow> [] | Some s \<Rightarrow> if s = [] then [] else ''Source: '' @ s])"
    by (cases "article ''headline''"; cases "article ''full_news''"; cases "article ''source''")
       (simp_all add: prepare_text_for_embedding_def truthy_def get_default_def)
next
  assume h: "other ''headline'' = article ''headline'' \<and> other ''source'' = article ''source'' \<and>
        map_option (take 1000) (other ''full_news'') = map_option (take 1000) (article ''full_news'')"
  then have t: "truthy (other ''full_news'') = truthy (article ''full_news'')"
    by (cases "other ''full_news''"; cases "article ''full_news''") (auto simp: truthy_def)
  from h have b: "take 1000 (get_default other ''full_news'' []) =
                  take 1000 (get_default article ''full_news'' [])"
    by (cases "other ''full_news''"; cases "article ''full_news''") (auto simp: get_default_def)
  show "prepare_text_for_embedding other = prepare_text_for_embedding article"
    using h t b by (simp add: prepare_text_for_embedding_def get_default_def)
qed

theorem prepare_text_labelled_parts_witness:
  "prepare_text_for_embedding [''headline'' \<mapsto> ''Flood'', ''source'' \<mapsto> ''CNN'']
     = ''Headline: Flood Source: CNN''
   \<and> prepare_text_for_embedding
       [''headline'' \<mapsto> ''Flood'', ''full_news'' \<mapsto> replicate 1000 CHR ''a'' @ ''left out'']
     = prepare_text_for_embedding
       [''headline'' \<mapsto> ''Flood'', ''full_news'' \<mapsto> replicate 1000 CHR ''a'' @ ''also left out'']"
  using prepare_text_labelled_parts
    [of "[''headline'' \<mapsto> ''Flood'', ''source'' \<mapsto> ''CNN'']"
        "[''headline'' \<mapsto> ''Flood'', ''source'' \<mapsto> ''CNN'']"]
    prepare_text_labelled_parts
    [of "[''headline'' \<mapsto> ''Flood'', ''full_news'' \<mapsto> replicate 1000 CHR ''a'' @ ''also left out'']"
        "[''headline'' \<mapsto> ''Flood'', ''full_news'' \<mapsto> replicate 1000 CHR ''a'' @ ''left out'']"]
  by simp

subsection \<open>Loading the corpus\<close>




subsection \<open>Building\<close>

text \<open>
  Claim C5, as stated, fails on the code: with a document store that holds the empty
  list, \<open>build_from_scratch\<close> raises nothing. It returns \<^verbatim>\<open>False\<close>.
\<close>

theorem empty_corpus_counterexample:
  "fst (build_from_scratch (NewsVectorDB example_model) (example_world (Articles []))) = Inr False"
  by (simp add: build_from_scratch_def load_news_data_def example_world_def NewsVectorDB_def)

text \<open>
  Claim C5, amended. When the loaded corpus is empty, \<open>build_from_scratch\<close> returns
  \<^verbatim>\<open>False\<close> and ends there, leaving the object and the world as they were: no text
  has been sent to the Embedding Provider, and no index, metadata or config file has
  been written.
\<close>

theorem empty_corpus_returns_False:
  "load_news_data self w = Inr [] \<Longrightarrow> build_from_scratch self w = (Inr False, self, w)"
  by (simp add: build_from_scratch_def)

theorem empty_corpus_returns_False_witness:
  "load_news_data (NewsVectorDB example_model) (example_world Malformed) = Inr [] \<and>
   build_from_scratch (NewsVectorDB example_model) (example_world Malformed) =
     (Inr False, NewsVectorDB example_model, example_world Malformed)"
proof -
  have h: "load_news_data (NewsVectorDB example_model) (example_world Malformed) = Inr []"
    by (simp add: load_news_data_def example_world_def NewsVectorDB_def)
  from h empty_corpus_returns_False [OF h] show ?thesis by simp
qed

lemma create_loop_closed:
  "create_loop idx news texts md =
     (texts @ map prepare_text_for_embedding news,
      md @ map (\<lambda>(i, a). metadata_entry i a) (enumerate idx news))"
  by (induction news arbitrary: idx texts md) simp_all

lemma create_embeddings_nonempty:
  assumes "news_data \<noteq> []"
  shows "create_embeddings self news_data w =
           (Some (map (\<lambda>a. model self (prepare_text_for_embedding a)) news_data),
            self\<lparr>metadata := map (\<lambda>(i, a). metadata_entry i a) (enumerate 0 news_data),
                 embeddings := Some (map (\<lambda>a. model self (prepare_text_for_embedding a)) news_data)\<rparr>,
            w\<lparr>sent := sent w @ map prepare_text_for_embedding news_data\<rparr>)"
  using assms by (simp add: create_embeddings_def create_loop_closed comp_def Let_def)

lemma build_faiss_index_rows:
  assumes "build_faiss_index embs = Inr (Some index)"
  shows "\<exists>e. embs = Some e \<and> e \<noteq> [] \<and> index_rows index = e \<and> index_d index = length (hd e)"
proof (cases embs)
  case None
  with assms show ?thesis by (simp add: build_faiss_index_def)
next
  case (Some e)
  show ?thesis
  proof (cases "e = []")
    case True
    with assms Some show ?thesis by (simp add: build_faiss_index_def)
  next
    case False
    with assms Some
    have "faiss_add (IndexFlatL2 (length (hd e))) e = Inr index"
      by (simp add: build_faiss_index_def Let_def split: sum.splits)
    then have "index = \<lparr>index_d = length (hd e), index_rows = e\<rparr>"
      by (simp add: faiss_add_def IndexFlatL2_def split: if_splits)
    with Some False show ?thesis by simp
  qed
qed

text \<open>
  Claim C3. After \<open>create_embeddings\<close> over a non-empty list of articles and a
  \<open>build_faiss_index\<close> that returns an index, the metadata list has as many entries as
  the index has rows, which is the number of articles; and for every row \<open>i\<close> the row
  is the embedding of the prepared text of article \<open>i\<close>, while metadata entry \<open>i\<close> holds
  \<open>i\<close> as \<open>id\<close>, the headline, source URL and published time of article \<open>i\<close> (empty
  when missing), its source (\<open>Unknown\<close> when missing) and the preview of its body: the
  first 200 characters followed by three dots, or the empty string for an empty body.
\<close>

theorem build_alignment:
  assumes ne: "news_data \<noteq> []"
    and ce: "create_embeddings self news_data w = (embs, self1, w1)"
    and bi: "build_faiss_index embs = Inr (Some index)"
  shows "length (metadata self1) = ntotal index \<and> ntotal index = length news_data \<and>
         (\<forall>i < ntotal index.
            index_rows index ! i = model self (prepare_text_for_embedding (news_data ! i)) \<and>
            (metadata self1 ! i) ''id'' = Some (PInt (int i)) \<and>
            (metadata self1 ! i) ''headline'' =
               Some (PStr (case (news_data ! i) ''headline'' of None \<Rightarrow> [] | Some s \<Rightarrow> s)) \<and>
            (metadata self1 ! i) ''source_url'' =
               Some (PStr (case (news_data ! i) ''source_url'' of None \<Rightarrow> [] | Some s \<Rightarrow> s)) \<and>
            (metadata self1 ! i) ''published_time'' =
               Some (PStr (case (news_data ! i) ''published_time'' of None \<Rightarrow> [] | Some s \<Rightarrow> s)) \<and>
            (metadata self1 ! i) ''source'' =
               Some (PStr (case (news_data ! i) ''source'' of None \<Rightarrow> ''Unknown'' | Some s \<Rightarrow> s)) \<and>
            (metadata self1 ! i) ''full_news_preview'' =
               Some (PStr (case (news_data ! i) ''full_news'' of
                             None \<Rightarrow> []
                           | Some s \<Rightarrow> if s = [] then [] else take 200 s @ ''...'')))"
proof -
  from ce create_embeddings_nonempty [OF ne, of self w]
  have embs: "embs = Some (map (\<lambda>a. model self (prepare_text_for_embedding a)) news_data)"
    and md: "metadata self1 = map (\<lambda>(i, a). metadata_entry i a) (enumerate 0 news_data)"
    by auto
  from build_faiss_index_rows [OF bi] embs
  have rows: "index_rows index = map (\<lambda>a. model self (prepare_text_for_embedding a)) news_data"
    by auto
  have len: "length (metadata self1) = length news_data"
    by (simp add: md)
  have nt: "ntotal index = length news_data"
    by (simp add: ntotal_def rows)
  have entry: "metadata self1 ! i = metadata_entry i (news_data ! i)" if "i < length news_data" for i
    using that by (simp add: md nth_enumerate_eq)
  show ?thesis
  proof (intro conjI allI impI)
    show "length (metadata self1) = ntotal index" by (simp add: len nt)
    show "ntotal index = length news_data" by (rule nt)
  next
    fix i assume "i < ntotal index"
    then have i: "i < length news_data" by (simp add: nt)
    show "index_rows index ! i = model self (prepare_text_for_embedding (news_data ! i))"
      using i by (simp add: rows)
    show "(metadata self1 ! i) ''id'' = Some (PInt (int i))"
      by (simp add: entry [OF i] metadata_entry_def)
    show "(metadata self1 ! i) ''headline'' =
               Some (PStr (case (news_data ! i) ''headline'' of None \<Rightarrow> [] | Some s \<Rightarrow> s))"
      by (simp add: entry [OF i] metadata_entry_def get_default_def)
    show "(metadata self1 ! i) ''source_url'' =
               Some (PStr (case (news_data ! i) ''source_url'' of None \<Rightarrow> [] | Some s \<Rightarrow> s))"
      by (simp add: entry [OF i] metadata_entry_def get_default_def)
    show "(metadata self1 ! i) ''published_time'' =
               Some (PStr (case (news_data ! i) ''published_time'' of None \<Rightarrow> [] | Some s \<Rightarrow> s))"
      by (simp add: entry [OF i] metadata_entry_def get_default_def)
    show "(metadata self1 ! i) ''source'' =
               Some (PStr (case (news_data ! i) ''source'' of None \<Rightarrow> ''Unknown'' | Some s \<Rightarrow> s))"
      by (simp add: entry [OF i] metadata_entry_def get_default_def)
    show "(metadata self1 ! i) ''full_news_preview'' =
               Some (PStr (case (news_data ! i) ''full_news'' of
                             None \<Rightarrow> []
                           | Some s \<Rightarrow> if s = [] then [] else take 200 s @ ''...''))"
      by (simp add: entry [OF i] metadata_entry_def get_default_def truthy_def split: option.splits)
  qed
qed
theorem build_alignment_witness:
  "example_news \<noteq> [] \<and>
   build_faiss_index
     (fst (create_embeddings (NewsVectorDB example_model) example_news (example_world Absent)))
     = Inr (Some example_index) \<and>
   length (metadata (fst (snd
     (create_embeddings (NewsVectorDB example_model) example_news (example_world Absent)))))
     = ntotal example_index \<and>
   index_rows example_index ! 0 = example_model (prepare_text_for_embedding (example_news ! 0)) \<and>
   (metadata (fst (snd
     (create_embeddings (NewsVectorDB example_model) example_news (example_world Absent)))) ! 0)
     ''headline'' = Some (PStr ''Flood'')"
proof -
  let ?run = "create_embeddings (NewsVectorDB example_model) example_news (example_world Absent)"
  have ne: "example_news \<noteq> []"
    by (simp add: example_news_def)
  have ce: "?run = (fst ?run, fst (snd ?run), snd (snd ?run))"
    by simp
  have "fst ?run =
          Some (map (\<lambda>a. model (NewsVectorDB example_model) (prepare_text_for_embedding a))
                  example_news)"
    by (simp add: create_embeddings_nonempty [OF ne])
  also have "\<dots> = Some [[1, 0], [0, 0]]"
    by (simp add: NewsVectorDB_def example_model_def example_news_def
                  prepare_text_for_embedding_def truthy_def get_default_def)
  finally have embs: "fst ?run = Some [[1, 0], [0, 0]]" .
  have bi: "build_faiss_index (fst ?run) = Inr (Some example_index)"
    by (simp add: embs build_faiss_index_def faiss_add_def IndexFlatL2_def example_index_def)
  have two: "0 < ntotal example_index"
    by (simp add: ntotal_def example_index_def)
  from build_alignment [OF ne ce bi] two
  have "length (metadata (fst (snd ?run))) = ntotal example_index"
    and "index_rows example_index ! 0 =
           model (NewsVectorDB example_model) (prepare_text_for_embedding (example_news ! 0))"
    and "(metadata (fst (snd ?run)) ! 0) ''headline'' =
           Some (PStr (case (example_news ! 0) ''headline'' of None \<Rightarrow> [] | Some s \<Rightarrow> s))"
    by blast+
  then show ?thesis
    using ne bi by (simp add: NewsVectorDB_def example_news_def)
qed

subsection \<open>Persistence\<close>

text \<open>
  Claim C6, as stated, fails on the code. With both files missing, \<open>load_vector_db\<close>
  raises nothing and returns the pair \<^verbatim>\<open>(None, None)\<close>; and with an index file of two
  rows beside a metadata file of one entry it returns that index and that metadata:
  the two lengths are not compared.
\<close>

theorem load_mismatch_counterexample:
  "load_vector_db (NewsVectorDB example_model) (example_world Absent) = None \<and>
   ntotal example_index = 2 \<and> length [hd example_metadata] = 1 \<and>
   load_vector_db (NewsVectorDB example_model)
     ((example_world Absent)
        \<lparr>files := [''news_index.faiss'' \<mapsto> ''IxF2 two rows'',
                   ''news_metadata.pkl'' \<mapsto> ''pickle one'']\<rparr>)
     = Some (example_index, [hd example_metadata])"
  by (simp add: load_vector_db_def NewsVectorDB_def example_world_def example_resolve_def
                example_libs_def ntotal_def example_index_def)

text \<open>
  Claim C6, amended. For every load of the persisted state, \<open>load_vector_db\<close> raises
  nothing. It returns \<^verbatim>\<open>(None, None)\<close> if the index file or the metadata file is
  missing, and also if both exist but \<^verbatim>\<open>faiss.read_index\<close> or \<^verbatim>\<open>pickle.load\<close>
  cannot read its file. Otherwise it returns the index and the metadata as they were
  read, whatever their lengths: the metadata length is not compared with the row count.
\<close>

theorem load_vector_db_sentinel:
  "(files w (resolve w (faiss_index_file self)) = None \<or>
    files w (resolve w (metadata_file self)) = None
      \<longrightarrow> load_vector_db self w = None) \<and>
   (files w (resolve w (faiss_index_file self)) = Some index_bytes \<and>
    files w (resolve w (metadata_file self)) = Some metadata_bytes \<and>
    (read_index (libs w) index_bytes = None \<or> pickle_load (libs w) metadata_bytes = None)
      \<longrightarrow> load_vector_db self w = None) \<and>
   (files w (resolve w (faiss_index_file self)) = Some index_bytes \<and>
    files w (resolve w (metadata_file self)) = Some metadata_bytes \<and>
    read_index (libs w) index_bytes = Some index \<and>
    pickle_load (libs w) metadata_bytes = Some md
      \<longrightarrow> load_vector_db self w = Some (index, md))"
  by (auto simp: load_vector_db_def split: option.splits)

theorem load_vector_db_sentinel_witness:
  "load_vector_db (NewsVectorDB example_model)
     ((example_world Absent)
        \<lparr>files := [''news_index.faiss'' \<mapsto> ''IxF2 two rows'']\<rparr>) = None \<and>
   load_vector_db (NewsVectorDB example_model)
     ((example_world Absent)
        \<lparr>files := [''news_index.faiss'' \<mapsto> ''IxF2 two rows'',
                   ''news_metadata.pkl'' \<mapsto> ''truncated'']\<rparr>) = None \<and>
   load_vector_db (NewsVectorDB example_model)
     ((example_world Absent)
        \<lparr>files := [''news_index.faiss'' \<mapsto> ''IxF2 two rows'',
                   ''news_metadata.pkl'' \<mapsto> ''pickle two'']\<rparr>)
     = Some (example_index, example_metadata)"
  using load_vector_db_sentinel
      [of "(example_world Absent)
             \<lparr>files := [''news_index.faiss'' \<mapsto> ''IxF2 two rows'']\<rparr>"
          "NewsVectorDB example_model"]
    load_vector_db_sentinel
      [of "(example_world Absent)
             \<lparr>files := [''news_index.faiss'' \<mapsto> ''IxF2 two rows'',
                        ''news_metadata.pkl'' \<mapsto> ''truncated'']\<rparr>"
          "NewsVectorDB example_model" "''IxF2 two rows''" "''truncated''"]
    load_vector_db_sentinel
      [of "(example_world Absent)
             \<lparr>files := [''news_index.faiss'' \<mapsto> ''IxF2 two rows'',
                        ''news_metadata.pkl'' \<mapsto> ''pickle two'']\<rparr>"
          "NewsVectorDB example_model" "''IxF2 two rows''" "''pickle two''"
          example_index example_metadata]
  by (simp add: NewsVectorDB_def example_world_def example_resolve_def example_libs_def)




subsection \<open>Querying\<close>

lemma example_hits_5:
  "faiss_search example_index (example_model ''flood'') 5 =
     Inr [(0, 1), (1, 0), (FLT_MAX, - 1), (FLT_MAX, - 1), (FLT_MAX, - 1)]"
  by (simp add: faiss_search_def l2sqr_def example_index_def example_model_def numeral_eq_Suc)

lemma example_hits_2:
  "faiss_search example_index (example_model q) 2 =
     (if q = ''Headline: Flood'' then Inr [(0, 0), (1, 1)] else Inr [(0, 1), (1, 0)])"
  by (simp add: faiss_search_def l2sqr_def example_index_def example_model_def numeral_eq_Suc)

lemma search_similar_supplied:
  "search_similar self query k (Some ix) (Some m) w =
     (case faiss_search ix (model self query) k of
        Inl err \<Rightarrow> (Inl err, w\<lparr>sent := sent w @ [query]\<rparr>)
      | Inr hits \<Rightarrow>
          (fst (search_loop m (zip [0..<length hits] hits) [] (heap w)),
           w\<lparr>sent := sent w @ [query],
             heap := snd (search_loop m (zip [0..<length hits] hits) [] (heap w))\<rparr>))"
  by (simp add: search_similar_def Let_def split: sum.splits prod.splits)

lemma search_similar_hits:
  assumes "faiss_search ix (model self query) k = Inr hits"
  shows "fst (search_similar self query k (Some ix) (Some m) w) =
           fst (search_loop m (zip [0..<length hits] hits) [] (heap w))"
    and "heap (snd (search_similar self query k (Some ix) (Some m) w)) =
           snd (search_loop m (zip [0..<length hits] hits) [] (heap w))"
    and "sent (snd (search_similar self query k (Some ix) (Some m) w)) = sent w @ [query]"
  by (simp_all add: search_similar_supplied assms)

lemma example_run_5:
  "search_loop [0, 1]
     (zip [0..<length [(0::real, 1::int), (1, 0), (FLT_MAX, - 1), (FLT_MAX, - 1), (FLT_MAX, - 1)]]
          [(0, 1), (1, 0), (FLT_MAX, - 1), (FLT_MAX, - 1), (FLT_MAX, - 1)])
     [] example_metadata
   = (Inr [2, 3, 4, 5, 6],
      example_metadata @
      [(example_metadata ! 1)(''similarity_score'' \<mapsto> PFloat 0, ''rank'' \<mapsto> PInt 1),
       (example_metadata ! 0)(''similarity_score'' \<mapsto> PFloat 1, ''rank'' \<mapsto> PInt 2),
       (example_metadata ! 1)(''similarity_score'' \<mapsto> PFloat FLT_MAX, ''rank'' \<mapsto> PInt 3),
       (example_metadata ! 1)(''similarity_score'' \<mapsto> PFloat FLT_MAX, ''rank'' \<mapsto> PInt 4),
       (example_metadata ! 1)(''similarity_score'' \<mapsto> PFloat FLT_MAX, ''rank'' \<mapsto> PInt 5)])"
  by (simp add: py_index_def upt_conv_Cons nth_append example_metadata_def)

lemma example_search_5:
  shows "fst (search_similar (NewsVectorDB example_model) ''flood'' 5
                (Some example_index) (Some [0, 1]) loaded_world) = Inr [2, 3, 4, 5, 6]"
    and "heap (snd (search_similar (NewsVectorDB example_model) ''flood'' 5
                      (Some example_index) (Some [0, 1]) loaded_world))
         = example_metadata @
           [(example_metadata ! 1)(''similarity_score'' \<mapsto> PFloat 0, ''rank'' \<mapsto> PInt 1),
            (example_metadata ! 0)(''similarity_score'' \<mapsto> PFloat 1, ''rank'' \<mapsto> PInt 2),
            (example_metadata ! 1)(''similarity_score'' \<mapsto> PFloat FLT_MAX, ''rank'' \<mapsto> PInt 3),
            (example_metadata ! 1)(''similarity_score'' \<mapsto> PFloat FLT_MAX, ''rank'' \<mapsto> PInt 4),
            (example_metadata ! 1)(''similarity_score'' \<mapsto> PFloat FLT_MAX, ''rank'' \<mapsto> PInt 5)]"
proof -
  have heap0: "heap loaded_world = example_metadata"
    by (simp add: loaded_world_def)
  have m: "model (NewsVectorDB example_model) = example_model"
    by (simp add: NewsVectorDB_def)
  have hits: "faiss_search example_index (model (NewsVectorDB example_model) ''flood'') 5 =
                Inr [(0, 1), (1, 0), (FLT_MAX, - 1), (FLT_MAX, - 1), (FLT_MAX, - 1)]"
    by (simp only: m example_hits_5)
  show "fst (search_similar (NewsVectorDB example_model) ''flood'' 5
                (Some example_index) (Some [0, 1]) loaded_world) = Inr [2, 3, 4, 5, 6]"
    by (simp only: search_similar_hits(1) [OF hits] heap0 example_run_5 fst_conv)
  show "heap (snd (search_similar (NewsVectorDB example_model) ''flood'' 5
                      (Some example_index) (Some [0, 1]) loaded_world))
         = example_metadata @
           [(example_metadata ! 1)(''similarity_score'' \<mapsto> PFloat 0, ''rank'' \<mapsto> PInt 1),
            (example_metadata ! 0)(''similarity_score'' \<mapsto> PFloat 1, ''rank'' \<mapsto> PInt 2),
            (example_metadata ! 1)(''similarity_score'' \<mapsto> PFloat FLT_MAX, ''rank'' \<mapsto> PInt 3),
            (example_metadata ! 1)(''similarity_score'' \<mapsto> PFloat FLT_MAX, ''rank'' \<mapsto> PInt 4),
            (example_metadata ! 1)(''similarity_score'' \<mapsto> PFloat FLT_MAX, ''rank'' \<mapsto> PInt 5)]"
    by (simp only: search_similar_hits(2) [OF hits] heap0 example_run_5 snd_conv)
qed

text \<open>
  Claim C1 against the code. The index has two rows and two metadata entries, and the
  query asks for \<open>k = 5\<close>. FAISS answers with five pairs, the last three with label
  \<open>-1\<close>. The guard \<^verbatim>\<open>idx < len(metadata)\<close> lets \<open>-1\<close> through and \<^verbatim>\<open>metadata[-1]\<close>
  is the last entry, so \<open>search_similar\<close> returns five results, not two: the two rows,
  then three more copies of the last entry, ranked 3 to 5. On an index without rows
  and an empty metadata list the same subscript raises \<^verbatim>\<open>IndexError\<close>.
\<close>

theorem search_similar_short_index_returns_k:
  "ntotal example_index = 2 \<and>
   fst (search_similar (NewsVectorDB example_model) ''flood'' 5
          (Some example_index) (Some [0, 1]) loaded_world) = Inr [2, 3, 4, 5, 6] \<and>
   map (\<lambda>r. (heap (snd (search_similar (NewsVectorDB example_model) ''flood'' 5
                 (Some example_index) (Some [0, 1]) loaded_world)) ! r) ''id'')
       [2, 3, 4, 5, 6]
     = [Some (PInt 1), Some (PInt 0), Some (PInt 1), Some (PInt 1), Some (PInt 1)] \<and>
   fst (search_similar (NewsVectorDB example_model) ''flood'' 5
          (Some \<lparr>index_d = 2, index_rows = []\<rparr>) (Some []) (example_world Absent))
     = Inl IndexError"
proof -
  have a: "ntotal example_index = 2"
    by (simp add: ntotal_def example_index_def)
  have d: "map (\<lambda>r. (heap (snd (search_similar (NewsVectorDB example_model) ''flood'' 5
                 (Some example_index) (Some [0, 1]) loaded_world)) ! r) ''id'')
       [2, 3, 4, 5, 6]
     = [Some (PInt 1), Some (PInt 0), Some (PInt 1), Some (PInt 1), Some (PInt 1)]"
    by (simp only: example_search_5(2)) (simp add: example_metadata_def nth_append)
  have m: "model (NewsVectorDB example_model) = example_model"
    by (simp add: NewsVectorDB_def)
  have e: "fst (search_similar (NewsVectorDB example_model) ''flood'' 5
          (Some \<lparr>index_d = 2, index_rows = []\<rparr>) (Some []) (example_world Absent))
     = Inl IndexError"
    by (simp add: search_similar_supplied m faiss_search_def example_model_def py_index_def
                  example_world_def numeral_eq_Suc)
  from a example_search_5(1) d e show ?thesis by blast
qed

lemma strip_blank: "\<forall>c \<in> set line. py_isspace c \<Longrightarrow> py_strip line = []"
proof -
  assume "\<forall>c \<in> set line. py_isspace c"
  then have h: "dropWhile py_isspace line = []"
    by (induction line) simp_all
  show ?thesis unfolding py_strip_def
    by (simp only: h rev.simps dropWhile.simps)
qed


text \<open>
  Claim C4, as stated, fails on the code: \<open>search_similar\<close> given a query of three
  spaces raises nothing, sends the three spaces to the Embedding Provider and returns
  results.
\<close>

theorem blank_query_counterexample:
  "sent (snd (search_similar (NewsVectorDB example_model) ''   '' 2
                (Some example_index) (Some [0, 1]) loaded_world)) = [''   ''] \<and>
   fst (search_similar (NewsVectorDB example_model) ''   '' 2
          (Some example_index) (Some [0, 1]) loaded_world) = Inr [2, 3]"
proof -
  have hits: "faiss_search example_index (model (NewsVectorDB example_model) ''   '') 2 =
                Inr [(0, 1), (1, 0)]"
    by (simp add: NewsVectorDB_def example_hits_2)
  have run: "fst (search_loop [0, 1] (zip [0..<length [(0::real, 1::int), (1, 0)]] [(0, 1), (1, 0)])
                    [] (heap loaded_world)) = Inr [2, 3]"
    by (simp add: py_index_def upt_conv_Cons loaded_world_def example_metadata_def)
  have f: "fst (search_similar (NewsVectorDB example_model) ''   '' 2
                 (Some example_index) (Some [0, 1]) loaded_world) = Inr [2, 3]"
    by (simp only: search_similar_hits(1) [OF hits] run)
  have "sent loaded_world = []"
    by (simp add: loaded_world_def example_world_def)
  then have s: "sent (snd (search_similar (NewsVectorDB example_model) ''   '' 2
                (Some example_index) (Some [0, 1]) loaded_world)) = [''   '']"
    by (simp only: search_similar_hits(3) [OF hits] append_Nil)
  from s f show ?thesis by (rule conjI)
qed

text \<open>
  Claim C4, amended. In the interactive loop of \<open>main\<close>, a line that is empty or
  consists only of whitespace is skipped before \<open>search_similar\<close> is called: the loop
  goes on with the next line in the same state, so the text is never sent to the
  Embedding Provider. No error is raised for it. \<open>search_similar\<close> itself does not
  look at the query: called with an index and metadata, it sends any text it is given
  to the Embedding Provider.
\<close>

theorem blank_line_skipped_by_main_loop:
  "((\<forall>c \<in> set line. py_isspace c) \<longrightarrow>
      main_search_loop self index md (line # rest) w = main_search_loop self index md rest w)
   \<and> sent (snd (search_similar self query k (Some ix) (Some m) w)) = sent w @ [query]"
proof (intro conjI impI)
  assume "\<forall>c \<in> set line. py_isspace c"
  then have "py_strip line = []" by (rule strip_blank)
  then show "main_search_loop self index md (line # rest) w = main_search_loop self index md rest w"
    by (simp add: py_lower_def)
next
  show "sent (snd (search_similar self query k (Some ix) (Some m) w)) = sent w @ [query]"
    by (simp add: search_similar_def Let_def split: sum.splits prod.splits)
qed

theorem blank_line_skipped_by_main_loop_witness:
  "main_search_loop (NewsVectorDB example_model) (Some example_index) (Some [0, 1])
     [''  '', ''exit''] loaded_world = (Inr (), loaded_world)"
proof -
  have blank: "\<forall>c \<in> set ''  ''. py_isspace c"
    by (simp add: py_isspace_def)
  have stop: "main_search_loop (NewsVectorDB example_model) (Some example_index) (Some [0, 1])
                [''exit''] loaded_world = (Inr (), loaded_world)"
    by (simp add: py_strip_def py_isspace_def py_lower_def py_lower_char_def)
  from blank_line_skipped_by_main_loop
         [of "''  ''" "NewsVectorDB example_model" "Some example_index" "Some [0, 1]"
             "[''exit'']" loaded_world]
       blank stop
  show ?thesis by simp
qed

text \<open>
  What a query leaves alone. Each turn of the result loop appends one dict to the heap
  and writes into that dict only, so the heap after a query, and after any run of the
  interactive loop, extends the heap before it; the files and the document store are
  not touched.
\<close>

lemma search_loop_Cons:
  "search_loop md ((i, dv, idx) # rest) results h =
     (if idx < int (length md) then
        (case py_index md idx of
           Inl err \<Rightarrow> (Inl err, h)
         | Inr entry \<Rightarrow>
             search_loop md rest (results @ [length h])
               (h @ [(h ! entry)(''similarity_score'' \<mapsto> PFloat dv, ''rank'' \<mapsto> PInt (int i + 1))]))
      else search_loop md rest results h)"
  by (simp add: Let_def split: sum.splits)

lemma search_loop_extends:
  "search_loop md hits results h = (r, h') \<Longrightarrow> \<exists>new. h' = h @ new"
proof (induction hits arbitrary: results h)
  case Nil
  then show ?case by simp
next
  case (Cons hit rest)
  obtain i dv idx where hit: "hit = (i, dv, idx)" by (cases hit) auto
  show ?case
  proof (cases "idx < int (length md)")
    case False
    with Cons.prems hit have "search_loop md rest results h = (r, h')"
      by (simp only: search_loop_Cons if_False)
    then show ?thesis by (rule Cons.IH)
  next
    case True
    show ?thesis
    proof (cases "py_index md idx")
      case (Inl err)
      with Cons.prems hit True have "h' = h"
        by (simp only: search_loop_Cons if_True sum.case prod.inject)
      then show ?thesis by simp
    next
      case (Inr entry)
      let ?d = "(h ! entry)(''similarity_score'' \<mapsto> PFloat dv, ''rank'' \<mapsto> PInt (int i + 1))"
      from Cons.prems hit True Inr
      have "search_loop md rest (results @ [length h]) (h @ [?d]) = (r, h')"
        by (simp only: search_loop_Cons if_True sum.case)
      from Cons.IH [OF this] obtain new where "h' = (h @ [?d]) @ new" ..
      then have "h' = h @ (?d # new)" by simp
      then show ?thesis ..
    qed
  qed
qed

lemma search_similar_frame:
  "(\<exists>new. heap (snd (search_similar self query k index md w)) = heap w @ new) \<and>
   files (snd (search_similar self query k index md w)) = files w \<and>
   docs (snd (search_similar self query k index md w)) = docs w"
  by (auto simp: search_similar_def Let_def alloc_all_def
           split: sum.splits prod.splits option.splits
           dest!: search_loop_extends)

lemma main_search_loop_frame:
  "(\<exists>new. heap (snd (main_search_loop self index md lines w)) = heap w @ new) \<and>
   files (snd (main_search_loop self index md lines w)) = files w \<and>
   docs (snd (main_search_loop self index md lines w)) = docs w"
proof (induction lines arbitrary: w)
  case Nil
  show ?case by simp
next
  case (Cons line rest)
  let ?q = "py_strip line"
  show ?case
  proof (cases "py_lower ?q = ''exit''")
    case True
    then show ?thesis by (simp add: Let_def)
  next
    case notexit: False
    show ?thesis
    proof (cases "?q = []")
      case True
      with notexit have "main_search_loop self index md (line # rest) w =
                         main_search_loop self index md rest w"
        by (simp add: Let_def)
      then show ?thesis using Cons.IH [of w] by simp
    next
      case False
      obtain r w1 where s: "search_similar self ?q 5 index md w = (r, w1)"
        by (cases "search_similar self ?q 5 index md w") auto
      from search_similar_frame [of self ?q 5 index md w] s
      obtain new1 where h1: "heap w1 = heap w @ new1"
        and f1: "files w1 = files w" and d1: "docs w1 = docs w"
        by auto
      show ?thesis
      proof (cases r)
        case (Inl err)
        with notexit False s have "main_search_loop self index md (line # rest) w = (Inl err, w1)"
          by (simp add: Let_def)
        then show ?thesis using h1 f1 d1 by simp
      next
        case (Inr results)
        with notexit False s have "main_search_loop self index md (line # rest) w =
                                   main_search_loop self index md rest w1"
          by (simp add: Let_def)
        moreover from Cons.IH [of w1] obtain new2 where
          "heap (snd (main_search_loop self index md rest w1)) = heap w1 @ new2"
          "files (snd (main_search_loop self index md rest w1)) = files w1"
          "docs (snd (main_search_loop self index md rest w1)) = docs w1"
          by auto
        ultimately show ?thesis using h1 f1 d1 by simp
      qed
    qed
  qed
qed



end
